theory Spec2Isabelle
  imports Main
begin

section \<open>The admission webhook of pkg/admission/admission.go\<close>

text \<open>
  The theory embeds \<^verbatim>\<open>pkg/admission/admission.go\<close>: the failure-response builder
  \<^verbatim>\<open>toAdmissionResponseFailure\<close>, the two admission functions
  \<^verbatim>\<open>mutatePrometheusRules\<close> and \<^verbatim>\<open>validatePrometheusRules\<close>, and the HTTP
  handler \<^verbatim>\<open>serveAdmission\<close>.

  Conventions of the embedding.
  \<^item> A Go \<^verbatim>\<open>string\<close> and a \<^verbatim>\<open>[]byte\<close> are a \<^typ>\<open>string\<close> (a list of bytes).
  \<^item> A Go \<^verbatim>\<open>error\<close> value is represented by the text \<^verbatim>\<open>err.Error()\<close> returns; the
    non-nil errors are the elements of the type, the nil error is \<^const>\<open>None\<close> of an option.
  \<^item> A Go pointer or interface value that may be nil is an option; using a nil one
    (reading a field through it, calling a method on it) panics, and a panic is the
    \<^const>\<open>Inl\<close> branch of a sum.
  \<^item> Logging is not modelled: none of the log calls changes what the functions return.
  \<^item> Functions of other packages (the deserializer, \<^verbatim>\<open>json.Unmarshal\<close>,
    \<^verbatim>\<open>json.Marshal\<close>, the rule validator, the patch generator, the rendering of a
    resource triple by \<^verbatim>\<open>%v\<close>) are parameters of the functions that call them.
\<close>

subsection \<open>Data\<close>

type_synonym bytes = string
type_synonym error = string

datatype go_panic = NilPointerDereference

text \<open>\<^verbatim>\<open>metav1.GroupVersionResource\<close>.\<close>

record GroupVersionResource =
  Group :: string
  Version :: string
  Resource :: string

text \<open>\<^verbatim>\<open>metav1.StatusCause\<close>, \<^verbatim>\<open>metav1.StatusDetails\<close> and \<^verbatim>\<open>metav1.Status\<close>, with the
  fields the package writes (and the other fields of a cause, which stay at their zero
  value).\<close>

record StatusCause =
  cause_Type :: string
  cause_Message :: string
  cause_Field :: string

record StatusDetails =
  Name :: string
  Causes :: "StatusCause list"

record Status =
  status_Status :: string
  status_Message :: string
  Reason :: string
  Details :: "StatusDetails option"
  Code :: int

text \<open>\<^verbatim>\<open>v1.AdmissionRequest\<close> (the fields the package reads), \<^verbatim>\<open>v1.AdmissionResponse\<close>
  and \<^verbatim>\<open>v1.AdmissionReview\<close>. \<^verbatim>\<open>Patch\<close> is a byte slice (nil is \<^const>\<open>None\<close>),
  \<^verbatim>\<open>Result\<close>, \<^verbatim>\<open>PatchType\<close>, \<^verbatim>\<open>Request\<close> and \<^verbatim>\<open>Response\<close> are pointers.\<close>

record AdmissionRequest =
  req_UID :: string
  req_Resource :: GroupVersionResource
  Object_Raw :: bytes

record AdmissionResponse =
  resp_UID :: string
  Allowed :: bool
  Result :: "Status option"
  Patch :: "bytes option"
  PatchType :: "string option"

record AdmissionReview =
  Kind :: string
  APIVersion :: string
  Request :: "AdmissionRequest option"
  Response :: "AdmissionResponse option"

text \<open>The zero values \<^verbatim>\<open>v1.AdmissionReview{}\<close> and \<^verbatim>\<open>v1.AdmissionResponse{}\<close>.\<close>

definition zeroAdmissionReview :: AdmissionReview where
  "zeroAdmissionReview = \<lparr>Kind = [], APIVersion = [], Request = None, Response = None\<rparr>"

definition zeroAdmissionResponse :: AdmissionResponse where
  "zeroAdmissionResponse =
     \<lparr>resp_UID = [], Allowed = False, Result = None, Patch = None, PatchType = None\<rparr>"

text \<open>The constants of the package and the constants of \<^verbatim>\<open>metav1\<close>, \<^verbatim>\<open>v1\<close> and
  \<^verbatim>\<open>net/http\<close> it uses.\<close>

definition addFirstAnnotationPatch :: string where
  "addFirstAnnotationPatch =
     ''{ \"op\": \"add\", \"path\": \"/metadata/annotations\", \"value\": {\"prometheus-operator-validated\": \"true\"}}''"

definition addAdditionalAnnotationPatch :: string where
  "addAdditionalAnnotationPatch =
     ''{ \"op\": \"add\", \"path\": \"/metadata/annotations/prometheus-operator-validated\", \"value\": \"true\" }''"

definition errUnmarshalAdmission :: string where
  "errUnmarshalAdmission = ''Cannot unmarshal admission request''"

definition errUnmarshalRules :: string where
  "errUnmarshalRules = ''Cannot unmarshal rules from spec''"

definition ruleResource :: GroupVersionResource where
  "ruleResource =
     \<lparr>Group = ''monitoring.coreos.com'', Version = ''v1'', Resource = ''prometheusrules''\<rparr>"

definition StatusFailure :: string where
  "StatusFailure = ''Failure''"

definition StatusReasonInvalid :: string where
  "StatusReasonInvalid = ''Invalid''"

definition StatusUnprocessableEntity :: int where
  "StatusUnprocessableEntity = 422"

definition StatusBadRequest :: int where
  "StatusBadRequest = 400"

definition StatusUnsupportedMediaType :: int where
  "StatusUnsupportedMediaType = 415"

definition StatusInternalServerError :: int where
  "StatusInternalServerError = 500"

definition PatchTypeJSONPatch :: string where
  "PatchTypeJSONPatch = ''JSONPatch''"

subsection \<open>The failure-response builder\<close>

text \<open>
  \<^verbatim>\<open>toAdmissionResponseFailure\<close> starts from a response whose result has an empty
  causes list, sets status, reason, code and message, and then loops over the errors:
  each turn of the loop sets the name of the details and appends one cause. The loop is
  \<open>failure_loop\<close>, a recursion over the slice with the details as accumulator.
\<close>

fun failure_loop :: "error list \<Rightarrow> StatusDetails \<Rightarrow> StatusDetails" where
  "failure_loop [] d = d"
| "failure_loop (err # errors) d =
     failure_loop errors
       (d\<lparr>Name := ''prometheusrules'',
          Causes := Causes d @ [\<lparr>cause_Type = [], cause_Message = err, cause_Field = []\<rparr>]\<rparr>)"

definition toAdmissionResponseFailure :: "string \<Rightarrow> error list \<Rightarrow> AdmissionResponse" where
  "toAdmissionResponseFailure message errors =
     (let details = \<lparr>Name = [], Causes = []\<rparr>;
          result = \<lparr>status_Status = StatusFailure, status_Message = message,
                    Reason = StatusReasonInvalid,
                    Details = Some (failure_loop errors details),
                    Code = StatusUnprocessableEntity\<rparr>
      in zeroAdmissionResponse\<lparr>Result := Some result\<rparr>)"

text \<open>The cause record the loop appends for one error.\<close>

definition cause_of :: "error \<Rightarrow> StatusCause" where
  "cause_of err = \<lparr>cause_Type = [], cause_Message = err, cause_Field = []\<rparr>"

subsection \<open>The webhook and its counters\<close>

text \<open>
  \<^verbatim>\<open>Admission\<close> holds two \<^verbatim>\<open>prometheus.Counter\<close> interface values and a logger.
  \<^verbatim>\<open>New\<close> leaves both counters nil; \<^verbatim>\<open>RegisterMetrics\<close> stores the two it is
  given. A counter is modelled by the number of times it was incremented, a nil counter
  by \<^const>\<open>None\<close>. The logger and anything else the struct may hold live in the
  extension of the record, which no function of the model touches.
\<close>

record Admission =
  validationErrorsCounter :: "nat option"
  validationTriggeredCounter :: "nat option"

definition New :: Admission where
  "New = \<lparr>validationErrorsCounter = None, validationTriggeredCounter = None\<rparr>"

definition RegisterMetrics ::
  "nat option \<Rightarrow> nat option \<Rightarrow> 'z Admission_scheme \<Rightarrow> 'z Admission_scheme" where
  "RegisterMetrics triggered errors a =
     a\<lparr>validationTriggeredCounter := triggered, validationErrorsCounter := errors\<rparr>"

text \<open>\<^verbatim>\<open>c.Inc()\<close>: a method call on a nil interface value panics.\<close>

definition Inc :: "nat option \<Rightarrow> go_panic + nat option" where
  "Inc c = (case c of None \<Rightarrow> Inl NilPointerDereference | Some n \<Rightarrow> Inr (Some (n + 1)))"

text \<open>
  The error both admission functions build on a resource mismatch,
  \<^verbatim>\<open>fmt.Errorf("expected resource to be %v, but received %v", ruleResource, r)\<close>;
  \<open>fmtV\<close> is the rendering of a resource triple by \<^verbatim>\<open>%v\<close>.
\<close>

definition resource_mismatch ::
  "(GroupVersionResource \<Rightarrow> string) \<Rightarrow> GroupVersionResource \<Rightarrow> error" where
  "resource_mismatch fmtV r =
     ''expected resource to be '' @ fmtV ruleResource @ '', but received '' @ fmtV r"

subsection \<open>The mutating admission function\<close>

text \<open>
  \<^verbatim>\<open>PrometheusRules\<close>, the struct the mutating function unmarshals the object into: the
  annotations of its metadata (the entries of the Go map, keys distinct) and the raw
  bytes of its spec.
\<close>

record PrometheusRules =
  Annotations :: "(string \<times> string) list"
  Spec_Raw :: bytes

text \<open>\<^verbatim>\<open>strings.Join\<close>.\<close>

fun Join :: "string list \<Rightarrow> string \<Rightarrow> string" where
  "Join [] sep = []"
| "Join [x] sep = x"
| "Join (x # y # xs) sep = x @ sep @ Join (y # xs) sep"

text \<open>
  \<^verbatim>\<open>mutatePrometheusRules\<close>. \<open>Unmarshal\<close> is \<^verbatim>\<open>json.Unmarshal\<close> into a
  \<^verbatim>\<open>PrometheusRules\<close>, \<open>generatePatches\<close> is
  \<^verbatim>\<open>generatePatchesForNonStringLabelsAnnotations\<close>. The function reads the request
  through the pointer \<^verbatim>\<open>ar.Request\<close> first; it changes nothing in the webhook.
\<close>

definition mutatePrometheusRules ::
  "(GroupVersionResource \<Rightarrow> string) \<Rightarrow> (bytes \<Rightarrow> error + PrometheusRules) \<Rightarrow>
   (bytes \<Rightarrow> error + string list) \<Rightarrow>
   'z Admission_scheme \<Rightarrow> AdmissionReview \<Rightarrow>
   (go_panic + AdmissionResponse option) \<times> 'z Admission_scheme" where
  "mutatePrometheusRules fmtV Unmarshal generatePatches a ar =
     (case Request ar of
        None \<Rightarrow> (Inl NilPointerDereference, a)
      | Some request \<Rightarrow>
          if req_Resource request \<noteq> ruleResource then
            (let err = resource_mismatch fmtV (req_Resource request)
             in (Inr (Some (toAdmissionResponseFailure ''Unexpected resource kind'' [err])), a))
          else
            (case Unmarshal (Object_Raw request) of
               Inl err \<Rightarrow>
                 (Inr (Some (toAdmissionResponseFailure errUnmarshalAdmission [err])), a)
             | Inr rule \<Rightarrow>
                 (case generatePatches (Spec_Raw rule) of
                    Inl err \<Rightarrow>
                      (Inr (Some (toAdmissionResponseFailure errUnmarshalRules [err])), a)
                  | Inr patches \<Rightarrow>
                      (let reviewResponse = zeroAdmissionResponse\<lparr>Allowed := True\<rparr>;
                           patches' =
                             (if length (Annotations rule) = 0
                              then patches @ [addFirstAnnotationPatch]
                              else patches @ [addAdditionalAnnotationPatch])
                       in (Inr (Some (reviewResponse
                              \<lparr>PatchType := Some PatchTypeJSONPatch,
                               Patch := Some (''['' @ Join patches' '','' @ '']'')\<rparr>)), a)))))"

subsection \<open>The validating admission function\<close>

text \<open>\<^verbatim>\<open>monitoringv1.PrometheusRule\<close>: the function reads its spec only, whose type is
  left open.\<close>

record 'spec PrometheusRule =
  Spec :: 'spec

text \<open>
  \<^verbatim>\<open>validatePrometheusRules\<close>. \<open>Unmarshal\<close> is \<^verbatim>\<open>json.Unmarshal\<close> into a
  \<^verbatim>\<open>PrometheusRule\<close>, \<open>ValidateRule\<close> is \<^verbatim>\<open>promoperator.ValidateRule\<close>. The
  increments are written where the source makes them: a panic keeps the increments made
  before it.
\<close>

definition validatePrometheusRules ::
  "(GroupVersionResource \<Rightarrow> string) \<Rightarrow> (bytes \<Rightarrow> error + 'spec PrometheusRule) \<Rightarrow>
   ('spec \<Rightarrow> error list) \<Rightarrow>
   'z Admission_scheme \<Rightarrow> AdmissionReview \<Rightarrow>
   (go_panic + AdmissionResponse option) \<times> 'z Admission_scheme" where
  "validatePrometheusRules fmtV Unmarshal ValidateRule a ar =
     (case Inc (validationTriggeredCounter a) of
        Inl p \<Rightarrow> (Inl p, a)
      | Inr t \<Rightarrow>
          (let a1 = a\<lparr>validationTriggeredCounter := t\<rparr>
           in case Request ar of
                None \<Rightarrow> (Inl NilPointerDereference, a1)
              | Some request \<Rightarrow>
                  if req_Resource request \<noteq> ruleResource then
                    (let err = resource_mismatch fmtV (req_Resource request)
                     in case Inc (validationErrorsCounter a1) of
                          Inl p \<Rightarrow> (Inl p, a1)
                        | Inr e \<Rightarrow>
                            (Inr (Some (toAdmissionResponseFailure
                                          ''Unexpected resource kind'' [err])),
                             a1\<lparr>validationErrorsCounter := e\<rparr>))
                  else
                    (case Unmarshal (Object_Raw request) of
                       Inl err \<Rightarrow>
                         (case Inc (validationErrorsCounter a1) of
                            Inl p \<Rightarrow> (Inl p, a1)
                          | Inr e \<Rightarrow>
                              (Inr (Some (toAdmissionResponseFailure errUnmarshalRules [err])),
                               a1\<lparr>validationErrorsCounter := e\<rparr>))
                     | Inr promRule \<Rightarrow>
                         (let errors = ValidateRule (Spec promRule)
                          in if length errors \<noteq> 0 then
                               (case Inc (validationErrorsCounter a1) of
                                  Inl p \<Rightarrow> (Inl p, a1)
                                | Inr e \<Rightarrow>
                                    (Inr (Some (toAdmissionResponseFailure
                                                  ''Rules are not valid'' errors)),
                                     a1\<lparr>validationErrorsCounter := e\<rparr>))
                             else (Inr (Some (zeroAdmissionResponse\<lparr>Allowed := True\<rparr>)), a1)))))"

subsection \<open>The HTTP handler\<close>

text \<open>
  Of the \<^verbatim>\<open>http.Request\<close> the handler reads the body and the first value of the
  \<^verbatim>\<open>Content-Type\<close> header. \<open>Body\<close> is \<^const>\<open>None\<close> for a nil body, \<open>Some (Inl e)\<close>
  when \<^verbatim>\<open>ioutil.ReadAll\<close> fails and \<open>Some (Inr data)\<close> when it returns \<open>data\<close>.
\<close>

record http_Request =
  Body :: "(error + bytes) option"
  ContentType :: string

text \<open>What the handler does to its \<^verbatim>\<open>http.ResponseWriter\<close>, in order:
  \<^verbatim>\<open>http.Error(w, text, code)\<close> or \<^verbatim>\<open>w.Write(bytes)\<close>.\<close>

datatype writer_op = Error string int | Write bytes

text \<open>
  The status line the client receives: the first operation on the writer decides it. A
  \<^verbatim>\<open>Write\<close> with no header written before sends 200, as does a handler that returns
  having written nothing.
\<close>

fun http_status :: "writer_op list \<Rightarrow> int" where
  "http_status [] = 200"
| "http_status (Error msg code # ops) = code"
| "http_status (Write bs # ops) = 200"

text \<open>
  The end of \<^verbatim>\<open>serveAdmission\<close>, from \<^verbatim>\<open>json.Marshal\<close> on. \<open>Marshal\<close> is
  \<^verbatim>\<open>json.Marshal\<close> of the response envelope, \<open>wWrite\<close> the error, if any, of
  \<^verbatim>\<open>w.Write\<close>. A failed \<^verbatim>\<open>Marshal\<close> reports the error and does not return: the
  (nil) bytes are written all the same.
\<close>

definition writeResponse ::
  "(AdmissionReview \<Rightarrow> error + bytes) \<Rightarrow> (bytes \<Rightarrow> error option) \<Rightarrow>
   AdmissionReview \<Rightarrow> writer_op list" where
  "writeResponse Marshal wWrite review =
     (let marshalled = Marshal review;
          respBytes = (case marshalled of Inl e \<Rightarrow> [] | Inr bs \<Rightarrow> bs);
          ops1 = (case marshalled of
                    Inl e \<Rightarrow>
                      [Error (''could not serialize response: '' @ e) StatusInternalServerError]
                  | Inr bs \<Rightarrow> []);
          ops2 = (case wWrite respBytes of
                    Some e \<Rightarrow>
                      [Error (''could not write response: '' @ e) StatusInternalServerError]
                  | None \<Rightarrow> [])
      in ops1 @ [Write respBytes] @ ops2)"

text \<open>
  \<^verbatim>\<open>serveAdmission\<close>. \<open>Decode\<close> is \<^verbatim>\<open>deserializer.Decode(body, nil, &into)\<close>: it is
  given the envelope to decode into and returns that envelope as the call leaves it,
  with the error. \<open>admit\<close> returns a pointer to a response. The handler returns the
  operations it made on the writer, or panics; a panic leaves the writer untouched,
  since every dereference comes before the first write. The three assignments after the
  \<^verbatim>\<open>if\<close> read \<^verbatim>\<open>responseAdmissionReview.Response\<close> and
  \<^verbatim>\<open>requestedAdmissionReview.Request\<close> through their pointers.
\<close>

definition serveAdmission ::
  "(bytes \<Rightarrow> AdmissionReview \<Rightarrow> AdmissionReview \<times> error option) \<Rightarrow>
   (AdmissionReview \<Rightarrow> error + bytes) \<Rightarrow> (bytes \<Rightarrow> error option) \<Rightarrow>
   ('z Admission_scheme \<Rightarrow> AdmissionReview \<Rightarrow>
      (go_panic + AdmissionResponse option) \<times> 'z Admission_scheme) \<Rightarrow>
   'z Admission_scheme \<Rightarrow> http_Request \<Rightarrow>
   (go_panic + writer_op list) \<times> 'z Admission_scheme" where
  "serveAdmission Decode Marshal wWrite admit a r =
     (let body = (case Body r of
                    None \<Rightarrow> []
                  | Some (Inl err) \<Rightarrow> []
                  | Some (Inr data) \<Rightarrow> data)
      in if length body = 0 then
           (Inr [Error ''request has no body'' StatusBadRequest], a)
         else if ContentType r \<noteq> ''application/json'' then
           (Inr [Error ''invalid Content-Type, want `application/json`''
                   StatusUnsupportedMediaType], a)
         else
           (let (requestedAdmissionReview, err) = Decode body zeroAdmissionReview;
                (response, a') =
                  (case err of
                     Some e \<Rightarrow>
                       (Inr (Some (toAdmissionResponseFailure
                                     ''Unable to deserialize request'' [e])), a)
                   | None \<Rightarrow> admit a requestedAdmissionReview)
            in case response of
                 Inl p \<Rightarrow> (Inl p, a')
               | Inr None \<Rightarrow> (Inl NilPointerDereference, a')
               | Inr (Some resp) \<Rightarrow>
                   (case Request requestedAdmissionReview of
                      None \<Rightarrow> (Inl NilPointerDereference, a')
                    | Some request \<Rightarrow>
                        (Inr (writeResponse Marshal wWrite
                                (zeroAdmissionReview
                                   \<lparr>Response := Some (resp\<lparr>resp_UID := req_UID request\<rparr>),
                                    APIVersion := APIVersion requestedAdmissionReview,
                                    Kind := Kind requestedAdmissionReview\<rparr>)), a'))))"

text \<open>The two routes \<^verbatim>\<open>Register\<close> installs.\<close>

definition servePrometheusRulesMutate where
  "servePrometheusRulesMutate Decode Marshal wWrite fmtV Unmarshal generatePatches =
     serveAdmission Decode Marshal wWrite
       (mutatePrometheusRules fmtV Unmarshal generatePatches)"

definition servePrometheusRulesValidate where
  "servePrometheusRulesValidate Decode Marshal wWrite fmtV Unmarshal ValidateRule =
     serveAdmission Decode Marshal wWrite
       (validatePrometheusRules fmtV Unmarshal ValidateRule)"

subsection \<open>Well-formed JSON\<close>

text \<open>
  The grammar of RFC 8259, as predicates on byte strings, to state that a patch is a
  JSON array. Whitespace is space, tab, line feed and carriage return.
\<close>

definition json_ws :: "string \<Rightarrow> bool" where
  "json_ws s = list_all (\<lambda>c. c \<in> set [CHR 0x20, CHR 0x09, CHR 0x0A, CHR 0x0D]) s"

definition is_digit :: "char \<Rightarrow> bool" where
  "is_digit c = (c \<in> set ''0123456789'')"

definition is_hex :: "char \<Rightarrow> bool" where
  "is_hex c = (c \<in> set ''0123456789abcdefABCDEF'')"

definition digits :: "string \<Rightarrow> bool" where
  "digits s = (s \<noteq> [] \<and> list_all is_digit s)"

text \<open>A character that stands for itself inside a string: not the quotation mark, not
  the backslash, not a control character.\<close>

definition json_plain :: "char \<Rightarrow> bool" where
  "json_plain c = (c \<noteq> CHR 0x22 \<and> c \<noteq> CHR 0x5C \<and> (32::nat) \<le> of_char c)"

text \<open>The characters between the quotation marks of a string.\<close>

inductive json_chars :: "string \<Rightarrow> bool" where
  chars_Nil: "json_chars []"
| chars_Plain: "json_plain c \<Longrightarrow> json_chars s \<Longrightarrow> json_chars (c # s)"
| chars_Escape:
    "e \<in> set [CHR 0x22, CHR 0x5C, CHR ''/'', CHR ''b'', CHR ''f'', CHR ''n'', CHR ''r'', CHR ''t'']
     \<Longrightarrow> json_chars s \<Longrightarrow> json_chars (CHR 0x5C # e # s)"
| chars_Unicode:
    "is_hex h1 \<Longrightarrow> is_hex h2 \<Longrightarrow> is_hex h3 \<Longrightarrow> is_hex h4 \<Longrightarrow> json_chars s
     \<Longrightarrow> json_chars (CHR 0x5C # CHR ''u'' # h1 # h2 # h3 # h4 # s)"

text \<open>A number: an optional minus, an integer part without leading zero, an optional
  fraction, an optional exponent.\<close>

definition json_int :: "string \<Rightarrow> bool" where
  "json_int s = (s = ''0'' \<or> (digits s \<and> hd s \<noteq> CHR ''0''))"

inductive json_frac :: "string \<Rightarrow> bool" where
  frac_None: "json_frac []"
| frac_Some: "digits d \<Longrightarrow> json_frac (''.'' @ d)"

inductive json_exp :: "string \<Rightarrow> bool" where
  exp_None: "json_exp []"
| exp_Some:
    "e \<in> set [''e'', ''E''] \<Longrightarrow> sg \<in> set [[], ''+'', ''-''] \<Longrightarrow> digits d
     \<Longrightarrow> json_exp (e @ sg @ d)"

inductive json_number :: "string \<Rightarrow> bool" where
  number: "sg \<in> set [[], ''-''] \<Longrightarrow> json_int i \<Longrightarrow> json_frac f \<Longrightarrow> json_exp e
     \<Longrightarrow> json_number (sg @ i @ f @ e)"

text \<open>
  Values, the elements of an array (values separated by commas) and the members of an
  object (name and value pairs separated by commas), each value with optional
  whitespace around it. \<open>json_elements vs es\<close> says that \<open>es\<close> is the inside of an
  array whose elements are the texts \<open>vs\<close>, in their order.
\<close>

inductive json_value :: "string \<Rightarrow> bool"
  and json_elements :: "string list \<Rightarrow> string \<Rightarrow> bool"
  and json_members :: "string \<Rightarrow> bool" where
  value_String: "json_chars s \<Longrightarrow> json_value ([CHR 0x22] @ s @ [CHR 0x22])"
| value_Number: "json_number s \<Longrightarrow> json_value s"
| value_True: "json_value ''true''"
| value_False: "json_value ''false''"
| value_Null: "json_value ''null''"
| value_Object_empty: "json_ws w \<Longrightarrow> json_value (''{'' @ w @ ''}'')"
| value_Object: "json_members ms \<Longrightarrow> json_value (''{'' @ ms @ ''}'')"
| value_Array_empty: "json_ws w \<Longrightarrow> json_value (''['' @ w @ '']'')"
| value_Array: "json_elements vs es \<Longrightarrow> json_value (''['' @ es @ '']'')"
| elements_One:
    "json_ws w1 \<Longrightarrow> json_value v \<Longrightarrow> json_ws w2 \<Longrightarrow> json_elements [v] (w1 @ v @ w2)"
| elements_More:
    "json_ws w1 \<Longrightarrow> json_value v \<Longrightarrow> json_ws w2 \<Longrightarrow> json_elements vs es
     \<Longrightarrow> json_elements (v # vs) (w1 @ v @ w2 @ '','' @ es)"
| members_One:
    "json_ws w1 \<Longrightarrow> json_chars k \<Longrightarrow> json_ws w2 \<Longrightarrow> json_ws w3 \<Longrightarrow> json_value v
     \<Longrightarrow> json_ws w4
     \<Longrightarrow> json_members (w1 @ [CHR 0x22] @ k @ [CHR 0x22] @ w2 @ '':'' @ w3 @ v @ w4)"
| members_More:
    "json_ws w1 \<Longrightarrow> json_chars k \<Longrightarrow> json_ws w2 \<Longrightarrow> json_ws w3 \<Longrightarrow> json_value v
     \<Longrightarrow> json_ws w4 \<Longrightarrow> json_members ms
     \<Longrightarrow> json_members
           (w1 @ [CHR 0x22] @ k @ [CHR 0x22] @ w2 @ '':'' @ w3 @ v @ w4 @ '','' @ ms)"

text \<open>\<open>json_array_of vs s\<close>: the text \<open>s\<close> is a JSON array whose elements are the
  texts \<open>vs\<close>, in their order.\<close>

inductive json_array_of :: "string list \<Rightarrow> string \<Rightarrow> bool" where
  array_of_Nil: "json_ws w \<Longrightarrow> json_array_of [] (''['' @ w @ '']'')"
| array_of_elements: "json_elements vs es \<Longrightarrow> json_array_of vs (''['' @ es @ '']'')"

subsection \<open>A necessary condition for well-formed JSON\<close>

text \<open>
  A scan of a text that tracks whether it is inside a string, with the escapes of a
  string, and that refuses, outside strings, every character that no JSON text has
  there. A JSON value scans from outside a string to outside a string; a text whose
  scan fails is therefore not a JSON value.
\<close>

datatype scan_state = Outside | Inside | Escaped

definition json_outside_chars :: "char list" where
  "json_outside_chars =
     [CHR 0x20, CHR 0x09, CHR 0x0A, CHR 0x0D] @ ''0123456789-+.eE{}[],:truefalsn''"

fun scan_step :: "scan_state \<Rightarrow> char \<Rightarrow> scan_state option" where
  "scan_step Outside c =
     (if c = CHR 0x22 then Some Inside
      else if c \<in> set json_outside_chars then Some Outside else None)"
| "scan_step Inside c =
     (if c = CHR 0x22 then Some Outside
      else if c = CHR 0x5C then Some Escaped else Some Inside)"
| "scan_step Escaped c = Some Inside"

fun scan :: "scan_state \<Rightarrow> string \<Rightarrow> scan_state option" where
  "scan st [] = Some st"
| "scan st (c # s) = (case scan_step st c of None \<Rightarrow> None | Some st' \<Rightarrow> scan st' s)"

subsection \<open>The response the validating function is to give\<close>

text \<open>
  The decision of the validating function as the specification lists it, steps 2 to 6
  of its state machine, with no counter in it: a mismatch of the resource triple, an
  object that does not unmarshal and a rule the validator rejects each give a failure
  response; anything else is allowed, with no patch.
\<close>

definition spec_validate_response ::
  "(GroupVersionResource \<Rightarrow> string) \<Rightarrow> (bytes \<Rightarrow> error + 'spec PrometheusRule) \<Rightarrow>
   ('spec \<Rightarrow> error list) \<Rightarrow> AdmissionRequest \<Rightarrow> AdmissionResponse" where
  "spec_validate_response fmtV Unmarshal ValidateRule request =
     (if req_Resource request \<noteq> ruleResource then
        toAdmissionResponseFailure ''Unexpected resource kind''
          [resource_mismatch fmtV (req_Resource request)]
      else case Unmarshal (Object_Raw request) of
             Inl err \<Rightarrow> toAdmissionResponseFailure ''Cannot unmarshal rules from spec'' [err]
           | Inr promRule \<Rightarrow>
               if ValidateRule (Spec promRule) = [] then
                 \<lparr>resp_UID = [], Allowed = True, Result = None, Patch = None,
                  PatchType = None\<rparr>
               else toAdmissionResponseFailure ''Rules are not valid''
                      (ValidateRule (Spec promRule)))"

subsection \<open>Sample collaborators and inputs\<close>

text \<open>
  Concrete collaborators and inputs, at which the theorems below are instantiated.
  \<open>sample_fmtV\<close> renders a resource triple the way \<^verbatim>\<open>%v\<close> renders a plain struct of
  three strings. The two deserializer outcomes are an error with the envelope left as
  it was given (a body that is not an object, such as \<^verbatim>\<open>x\<close>), and a success that
  fills in the kind and API version of the envelope and no request (the body
  \<^verbatim>\<open>{"apiVersion":"admission.k8s.io/v1","kind":"AdmissionReview"}\<close>).
\<close>

definition sample_fmtV :: "GroupVersionResource \<Rightarrow> string" where
  "sample_fmtV r = ''{'' @ Group r @ '' '' @ Version r @ '' '' @ Resource r @ ''}''"

definition sample_request :: AdmissionRequest where
  "sample_request =
     \<lparr>req_UID = ''705ab4f5-6393-11e8-b7cc-42010a800002'', req_Resource = ruleResource,
      Object_Raw = ''{}''\<rparr>"

definition sample_foreign_request :: AdmissionRequest where
  "sample_foreign_request =
     \<lparr>req_UID = ''705ab4f5-6393-11e8-b7cc-42010a800002'',
      req_Resource = \<lparr>Group = [], Version = ''v1'', Resource = ''pods''\<rparr>,
      Object_Raw = ''{}''\<rparr>"

definition sample_review :: "AdmissionRequest option \<Rightarrow> AdmissionReview" where
  "sample_review request =
     \<lparr>Kind = ''AdmissionReview'', APIVersion = ''admission.k8s.io/v1'', Request = request,
      Response = None\<rparr>"

definition sample_Decode_error ::
  "bytes \<Rightarrow> AdmissionReview \<Rightarrow> AdmissionReview \<times> error option" where
  "sample_Decode_error body into = (into, Some ''no serialization format matched'')"

definition sample_Decode_no_request ::
  "bytes \<Rightarrow> AdmissionReview \<Rightarrow> AdmissionReview \<times> error option" where
  "sample_Decode_no_request body into =
     (into\<lparr>Kind := ''AdmissionReview'', APIVersion := ''admission.k8s.io/v1''\<rparr>, None)"

definition sample_Marshal :: "AdmissionReview \<Rightarrow> error + bytes" where
  "sample_Marshal review = Inr ''{}''"

definition sample_Write :: "bytes \<Rightarrow> error option" where
  "sample_Write bs = None"

definition sample_http_Request :: http_Request where
  "sample_http_Request = \<lparr>Body = Some (Inr ''x''), ContentType = ''application/json''\<rparr>"

text \<open>
  Objects for the mutating function: a rule whose one label has the number 1 as value,
  the same rule with an annotation in its metadata, and a rule whose one label has as
  value an array holding the string \<^verbatim>\<open>x"y\<close>. \<open>sample_Unmarshal_rules\<close> gives, on
  these objects and on \<^verbatim>\<open>{}\<close>, the annotations and the raw spec of the object;
  \<open>sample_generatePatches\<close> gives, on their specs, one replace operation for the label
  with its value rendered by \<^verbatim>\<open>%v\<close> between quotation marks, nothing escaped. Any
  other input is taken as one that does not unmarshal.
\<close>

definition sample_spec :: bytes where
  "sample_spec =
     ''{\"groups\":[{\"name\":\"g\",\"rules\":[{\"alert\":\"a\",\"expr\":\"up\",\"labels\":{\"severity\":1}}]}]}''"

definition sample_unescaped_spec :: bytes where
  "sample_unescaped_spec =
     ''{\"groups\":[{\"name\":\"g\",\"rules\":[{\"alert\":\"a\",\"expr\":\"up\",\"labels\":{\"severity\":[\"x''
     @ [CHR 0x5C] @ ''\"y\"]}}]}]}''"

definition sample_object :: bytes where
  "sample_object = ''{\"metadata\":{\"name\":\"r\"},\"spec\":'' @ sample_spec @ ''}''"

definition sample_annotated_object :: bytes where
  "sample_annotated_object =
     ''{\"metadata\":{\"name\":\"r\",\"annotations\":{\"team\":\"sre\"}},\"spec\":''
     @ sample_spec @ ''}''"

definition sample_unescaped_object :: bytes where
  "sample_unescaped_object =
     ''{\"metadata\":{\"name\":\"r\"},\"spec\":'' @ sample_unescaped_spec @ ''}''"

definition sample_mutate_request :: "bytes \<Rightarrow> AdmissionRequest" where
  "sample_mutate_request raw =
     \<lparr>req_UID = ''705ab4f5-6393-11e8-b7cc-42010a800002'', req_Resource = ruleResource,
      Object_Raw = raw\<rparr>"

definition sample_Unmarshal_rules :: "bytes \<Rightarrow> error + PrometheusRules" where
  "sample_Unmarshal_rules raw =
     (if raw = ''{}'' then Inr \<lparr>Annotations = [], Spec_Raw = []\<rparr>
      else if raw = sample_object then Inr \<lparr>Annotations = [], Spec_Raw = sample_spec\<rparr>
      else if raw = sample_annotated_object then
        Inr \<lparr>Annotations = [(''team'', ''sre'')], Spec_Raw = sample_spec\<rparr>
      else if raw = sample_unescaped_object then
        Inr \<lparr>Annotations = [], Spec_Raw = sample_unescaped_spec\<rparr>
      else Inl ''unexpected end of JSON input'')"

definition sample_patch :: string where
  "sample_patch =
     ''{\"op\": \"replace\",\"path\": \"/spec/groups/0/rules/0/labels/severity\",\"value\": \"1\"}''"

definition sample_unescaped_patch :: string where
  "sample_unescaped_patch =
     ''{\"op\": \"replace\",\"path\": \"/spec/groups/0/rules/0/labels/severity\",\"value\": \"[x\"y]\"}''"

definition sample_generatePatches :: "bytes \<Rightarrow> error + string list" where
  "sample_generatePatches raw =
     (if raw = ''{}'' then Inr []
      else if raw = sample_spec then Inr [sample_patch]
      else if raw = sample_unescaped_spec then Inr [sample_unescaped_patch]
      else Inl ''failed to unmarshal RuleGroups: unexpected end of JSON input'')"

definition sample_Unmarshal_rule :: "bytes \<Rightarrow> error + unit PrometheusRule" where
  "sample_Unmarshal_rule raw = Inr \<lparr>Spec = ()\<rparr>"

definition sample_ValidateRule_ok :: "unit \<Rightarrow> error list" where
  "sample_ValidateRule_ok spec = []"

definition sample_ValidateRule_bad :: "unit \<Rightarrow> error list" where
  "sample_ValidateRule_bad spec =
     [''group g, rule 0: could not parse expression'', ''groupname g is repeated'']"

definition sample_Admission :: Admission where
  "sample_Admission = RegisterMetrics (Some 0) (Some 0) New"

section \<open>Properties\<close>

subsection \<open>The failure-response builder\<close>

lemma failure_loop_Causes: "Causes (failure_loop errors d) = Causes d @ map cause_of errors"
  by (induction errors arbitrary: d) (simp_all add: cause_of_def)

lemma failure_loop_Name:
  "Name (failure_loop errors d) = (if errors = [] then Name d else ''prometheusrules'')"
proof (induction errors arbitrary: d)
  case Nil
  show ?case by simp
next
  case (Cons e es)
  show ?case by (simp add: Cons.IH)
qed

lemma failure_loop_eq:
  "failure_loop errors \<lparr>Name = [], Causes = []\<rparr> =
     \<lparr>Name = (if errors = [] then [] else ''prometheusrules''), Causes = map cause_of errors\<rparr>"
proof -
  have "Name (failure_loop errors \<lparr>Name = [], Causes = []\<rparr>) =
          (if errors = [] then [] else ''prometheusrules'')"
    by (simp add: failure_loop_Name)
  moreover have "Causes (failure_loop errors \<lparr>Name = [], Causes = []\<rparr>) = map cause_of errors"
    by (simp add: failure_loop_Causes)
  ultimately show ?thesis
    by (cases "failure_loop errors \<lparr>Name = [], Causes = []\<rparr>") simp
qed

lemma toAdmissionResponseFailure_eq:
  "toAdmissionResponseFailure message errors =
     \<lparr>resp_UID = [], Allowed = False,
      Result = Some \<lparr>status_Status = ''Failure'', status_Message = message,
                     Reason = ''Invalid'',
                     Details = Some \<lparr>Name = (if errors = [] then [] else ''prometheusrules''),
                                     Causes = map cause_of errors\<rparr>,
                     Code = 422\<rparr>,
      Patch = None, PatchType = None\<rparr>"
  by (simp add: toAdmissionResponseFailure_def failure_loop_eq zeroAdmissionResponse_def
      StatusFailure_def StatusReasonInvalid_def StatusUnprocessableEntity_def)

lemma cause_Message_cause_of: "map (cause_Message \<circ> cause_of) errors = errors"
  by (induction errors) (simp_all add: cause_of_def)

text \<open>
  Claim C8. The failure-response builder is a total function: for every message and
  every sequence of errors, the empty one included, it returns a response with
  \<open>Allowed = False\<close>, status \<open>Failure\<close>, reason \<open>Invalid\<close>, code 422 and the given
  message. Its causes are one record per input error, in the order of the errors, each
  carrying the message of its error; the name \<open>prometheusrules\<close> is attached to the
  details as soon as there is one error (with no error the name stays empty).
\<close>

theorem toAdmissionResponseFailure_response:
  "toAdmissionResponseFailure message errors =
     \<lparr>resp_UID = [], Allowed = False,
      Result = Some \<lparr>status_Status = ''Failure'', status_Message = message,
                     Reason = ''Invalid'',
                     Details = Some \<lparr>Name = (if errors = [] then [] else ''prometheusrules''),
                                     Causes = map cause_of errors\<rparr>,
                     Code = 422\<rparr>,
      Patch = None, PatchType = None\<rparr>
   \<and> length (map cause_of errors) = length errors
   \<and> map cause_Message (map cause_of errors) = errors"
  by (simp add: toAdmissionResponseFailure_eq cause_Message_cause_of)

theorem toAdmissionResponseFailure_response_witness:
  "toAdmissionResponseFailure ''Rules are not valid'' [''first'', ''second''] =
     \<lparr>resp_UID = [], Allowed = False,
      Result = Some \<lparr>status_Status = ''Failure'', status_Message = ''Rules are not valid'',
                     Reason = ''Invalid'',
                     Details = Some \<lparr>Name = ''prometheusrules'',
                                     Causes = [\<lparr>cause_Type = [], cause_Message = ''first'',
                                                cause_Field = []\<rparr>,
                                               \<lparr>cause_Type = [], cause_Message = ''second'',
                                                cause_Field = []\<rparr>]\<rparr>,
                     Code = 422\<rparr>,
      Patch = None, PatchType = None\<rparr>
   \<and> toAdmissionResponseFailure ''Unable to deserialize request'' [] =
     \<lparr>resp_UID = [], Allowed = False,
      Result = Some \<lparr>status_Status = ''Failure'',
                     status_Message = ''Unable to deserialize request'',
                     Reason = ''Invalid'',
                     Details = Some \<lparr>Name = [], Causes = []\<rparr>,
                     Code = 422\<rparr>,
      Patch = None, PatchType = None\<rparr>"
  using toAdmissionResponseFailure_response [of "''Rules are not valid''" "[''first'', ''second'']"]
    toAdmissionResponseFailure_response [of "''Unable to deserialize request''" "[]"]
  by (simp add: cause_of_def)

subsection \<open>The admission functions and their counters\<close>

text \<open>What the function does once the triggered counter is known to be registered and
  the request to be present.\<close>

lemma validate_registered:
  assumes "validationTriggeredCounter a = Some t"
    and "validationErrorsCounter a = Some e"
    and "Request ar = Some request"
  shows "validatePrometheusRules fmtV Unmarshal ValidateRule a ar =
           (Inr (Some (spec_validate_response fmtV Unmarshal ValidateRule request)),
            a\<lparr>validationTriggeredCounter := Some (t + 1),
              validationErrorsCounter :=
                (if Allowed (spec_validate_response fmtV Unmarshal ValidateRule request)
                 then Some e else Some (e + 1))\<rparr>)"
proof (cases "req_Resource request = ruleResource")
  case False
  then show ?thesis
    using assms
    by (simp add: validatePrometheusRules_def spec_validate_response_def Inc_def
        toAdmissionResponseFailure_eq)
next
  case True
  show ?thesis
  proof (cases "Unmarshal (Object_Raw request)")
    case (Inl err)
    then show ?thesis
      using assms True
      by (simp add: validatePrometheusRules_def spec_validate_response_def Inc_def
          toAdmissionResponseFailure_eq errUnmarshalRules_def)
  next
    case (Inr promRule)
    then show ?thesis
      using assms True
      by (simp add: validatePrometheusRules_def spec_validate_response_def Inc_def
          toAdmissionResponseFailure_eq zeroAdmissionResponse_def Let_def)
  qed
qed

text \<open>
  Claim C4. On a validate request for the expected resource whose object unmarshals,
  when the validator returns a non-empty sequence of errors (and both counters are
  registered, as the function needs to return at all), the response has
  \<open>Allowed = False\<close>, the message \<open>Rules are not valid\<close> and one cause per validator
  error, as many as there are errors, carrying their messages in the same order.
\<close>

theorem validate_invalid_rules:
  assumes "validationTriggeredCounter a = Some t"
    and "validationErrorsCounter a = Some e"
    and "Request ar = Some request"
    and "req_Resource request = ruleResource"
    and "Unmarshal (Object_Raw request) = Inr promRule"
    and "ValidateRule (Spec promRule) = errors"
    and "errors \<noteq> []"
  shows "fst (validatePrometheusRules fmtV Unmarshal ValidateRule a ar) =
           Inr (Some \<lparr>resp_UID = [], Allowed = False,
                  Result = Some \<lparr>status_Status = ''Failure'',
                                 status_Message = ''Rules are not valid'',
                                 Reason = ''Invalid'',
                                 Details = Some \<lparr>Name = ''prometheusrules'',
                                                 Causes = map cause_of errors\<rparr>,
                                 Code = 422\<rparr>,
                  Patch = None, PatchType = None\<rparr>)
         \<and> length (map cause_of errors) = length errors
         \<and> map cause_Message (map cause_of errors) = errors"
  using assms
  by (simp add: validate_registered [OF assms(1-3)] spec_validate_response_def
      toAdmissionResponseFailure_eq cause_Message_cause_of)

theorem validate_invalid_rules_witness:
  "fst (validatePrometheusRules sample_fmtV sample_Unmarshal_rule sample_ValidateRule_bad
          sample_Admission (sample_review (Some sample_request))) =
     Inr (Some \<lparr>resp_UID = [], Allowed = False,
            Result = Some \<lparr>status_Status = ''Failure'',
                           status_Message = ''Rules are not valid'',
                           Reason = ''Invalid'',
                           Details = Some \<lparr>Name = ''prometheusrules'',
                                           Causes = map cause_of (sample_ValidateRule_bad ())\<rparr>,
                           Code = 422\<rparr>,
            Patch = None, PatchType = None\<rparr>)
   \<and> length (map cause_of (sample_ValidateRule_bad ())) = 2
   \<and> map cause_Message (map cause_of (sample_ValidateRule_bad ())) =
       [''group g, rule 0: could not parse expression'', ''groupname g is repeated'']"
  using validate_invalid_rules [where a = sample_Admission and t = 0 and e = 0
      and ar = "sample_review (Some sample_request)" and request = sample_request
      and Unmarshal = sample_Unmarshal_rule and promRule = "\<lparr>Spec = ()\<rparr>"
      and ValidateRule = sample_ValidateRule_bad and errors = "sample_ValidateRule_bad ()"
      and fmtV = sample_fmtV]
  by (simp add: sample_Admission_def RegisterMetrics_def New_def sample_review_def
      sample_request_def sample_Unmarshal_rule_def sample_ValidateRule_bad_def)

text \<open>
  Claim C5. On an envelope whose request names a resource triple other than
  \<open>monitoring.coreos.com/v1/prometheusrules\<close>, the mutating function returns, and the
  validating function with its counters registered returns, a response with
  \<open>Allowed = False\<close> and exactly one cause, whose message is the mismatch error
  \<open>expected resource to be ..., but received ...\<close>. The object payload and the
  collaborators that would read it play no part.
\<close>

theorem kind_mismatch_rejected:
  assumes "Request ar = Some request"
    and "req_Resource request \<noteq> ruleResource"
    and "validationTriggeredCounter a = Some t"
    and "validationErrorsCounter a = Some e"
  shows "fst (mutatePrometheusRules fmtV UnmarshalM generatePatches am ar) =
           Inr (Some \<lparr>resp_UID = [], Allowed = False,
                  Result = Some \<lparr>status_Status = ''Failure'',
                                 status_Message = ''Unexpected resource kind'',
                                 Reason = ''Invalid'',
                                 Details = Some \<lparr>Name = ''prometheusrules'',
                                                 Causes = [cause_of (resource_mismatch fmtV
                                                             (req_Resource request))]\<rparr>,
                                 Code = 422\<rparr>,
                  Patch = None, PatchType = None\<rparr>)
         \<and> fst (validatePrometheusRules fmtV UnmarshalV ValidateRule a ar) =
           Inr (Some \<lparr>resp_UID = [], Allowed = False,
                  Result = Some \<lparr>status_Status = ''Failure'',
                                 status_Message = ''Unexpected resource kind'',
                                 Reason = ''Invalid'',
                                 Details = Some \<lparr>Name = ''prometheusrules'',
                                                 Causes = [cause_of (resource_mismatch fmtV
                                                             (req_Resource request))]\<rparr>,
                                 Code = 422\<rparr>,
                  Patch = None, PatchType = None\<rparr>)"
proof -
  have "fst (mutatePrometheusRules fmtV UnmarshalM generatePatches am ar) =
          Inr (Some (toAdmissionResponseFailure ''Unexpected resource kind''
                       [resource_mismatch fmtV (req_Resource request)]))"
    using assms(1,2) by (simp add: mutatePrometheusRules_def)
  moreover have "fst (validatePrometheusRules fmtV UnmarshalV ValidateRule a ar) =
          Inr (Some (toAdmissionResponseFailure ''Unexpected resource kind''
                       [resource_mismatch fmtV (req_Resource request)]))"
    using assms(2) by (simp add: validate_registered [OF assms(3,4,1)] spec_validate_response_def)
  ultimately show ?thesis
    by (simp add: toAdmissionResponseFailure_eq)
qed

theorem kind_mismatch_rejected_witness:
  "fst (mutatePrometheusRules sample_fmtV sample_Unmarshal_rules sample_generatePatches New
          (sample_review (Some sample_foreign_request))) =
     Inr (Some \<lparr>resp_UID = [], Allowed = False,
            Result = Some \<lparr>status_Status = ''Failure'',
                           status_Message = ''Unexpected resource kind'',
                           Reason = ''Invalid'',
                           Details = Some \<lparr>Name = ''prometheusrules'',
                                           Causes = [\<lparr>cause_Type = [], cause_Message =
    ''expected resource to be {monitoring.coreos.com v1 prometheusrules}, but received { v1 pods}'',
                                                      cause_Field = []\<rparr>]\<rparr>,
                           Code = 422\<rparr>,
            Patch = None, PatchType = None\<rparr>)
   \<and> fst (validatePrometheusRules sample_fmtV sample_Unmarshal_rule sample_ValidateRule_ok
            sample_Admission (sample_review (Some sample_foreign_request))) =
     Inr (Some \<lparr>resp_UID = [], Allowed = False,
            Result = Some \<lparr>status_Status = ''Failure'',
                           status_Message = ''Unexpected resource kind'',
                           Reason = ''Invalid'',
                           Details = Some \<lparr>Name = ''prometheusrules'',
                                           Causes = [\<lparr>cause_Type = [], cause_Message =
    ''expected resource to be {monitoring.coreos.com v1 prometheusrules}, but received { v1 pods}'',
                                                      cause_Field = []\<rparr>]\<rparr>,
                           Code = 422\<rparr>,
            Patch = None, PatchType = None\<rparr>)"
  using kind_mismatch_rejected [where a = sample_Admission and t = 0 and e = 0
      and ar = "sample_review (Some sample_foreign_request)"
      and request = sample_foreign_request and fmtV = sample_fmtV and am = New
      and UnmarshalM = sample_Unmarshal_rules and generatePatches = sample_generatePatches
      and UnmarshalV = sample_Unmarshal_rule and ValidateRule = sample_ValidateRule_ok]
  by (simp add: sample_Admission_def RegisterMetrics_def New_def sample_review_def
      sample_foreign_request_def ruleResource_def cause_of_def resource_mismatch_def
      sample_fmtV_def)

text \<open>
  Claim C6. On a validate request for the expected resource whose object unmarshals,
  when the validator returns no error (and the triggered counter is registered), the
  response has \<open>Allowed = True\<close>, no patch, no patch type and no result.
\<close>

theorem validate_valid_rules:
  assumes "validationTriggeredCounter a = Some t"
    and "Request ar = Some request"
    and "req_Resource request = ruleResource"
    and "Unmarshal (Object_Raw request) = Inr promRule"
    and "ValidateRule (Spec promRule) = []"
  shows "fst (validatePrometheusRules fmtV Unmarshal ValidateRule a ar) =
           Inr (Some \<lparr>resp_UID = [], Allowed = True, Result = None, Patch = None,
                  PatchType = None\<rparr>)"
  using assms
  by (simp add: validatePrometheusRules_def Inc_def zeroAdmissionResponse_def)

theorem validate_valid_rules_witness:
  "fst (validatePrometheusRules sample_fmtV sample_Unmarshal_rule sample_ValidateRule_ok
          sample_Admission (sample_review (Some sample_request))) =
     Inr (Some \<lparr>resp_UID = [], Allowed = True, Result = None, Patch = None,
            PatchType = None\<rparr>)"
  using validate_valid_rules [where a = sample_Admission and t = 0
      and ar = "sample_review (Some sample_request)" and request = sample_request
      and Unmarshal = sample_Unmarshal_rule and promRule = "\<lparr>Spec = ()\<rparr>"
      and ValidateRule = sample_ValidateRule_ok and fmtV = sample_fmtV]
  by (simp add: sample_Admission_def RegisterMetrics_def New_def sample_review_def
      sample_request_def sample_Unmarshal_rule_def sample_ValidateRule_ok_def)

text \<open>
  Claim C9, as the code has it. The increments are not no-ops on absent counters: a
  webhook fresh from \<open>New\<close>, with no counter registered, panics on the first statement
  of the validating function, where the same request is allowed once the counters are
  registered.
\<close>

theorem validate_unregistered_counterexample:
  "fst (validatePrometheusRules sample_fmtV sample_Unmarshal_rule sample_ValidateRule_ok
          New (sample_review (Some sample_request))) = Inl NilPointerDereference
   \<and> fst (validatePrometheusRules sample_fmtV sample_Unmarshal_rule sample_ValidateRule_ok
          sample_Admission (sample_review (Some sample_request))) =
       Inr (Some \<lparr>resp_UID = [], Allowed = True, Result = None, Patch = None,
              PatchType = None\<rparr>)"
  by (simp add: validatePrometheusRules_def Inc_def New_def sample_Admission_def
      RegisterMetrics_def sample_review_def sample_request_def sample_Unmarshal_rule_def
      sample_ValidateRule_ok_def zeroAdmissionResponse_def)

text \<open>
  Claim C9, amended. With both counters registered, the validating function returns,
  for every input that carries a request, the response the specification lists for it;
  with the triggered counter absent it panics on its first statement, for every input,
  and changes nothing.
\<close>

theorem validate_needs_registered_counters:
  "(validationTriggeredCounter a = Some t \<and> validationErrorsCounter a = Some e
      \<and> Request ar = Some request
    \<longrightarrow> fst (validatePrometheusRules fmtV Unmarshal ValidateRule a ar) =
          Inr (Some (spec_validate_response fmtV Unmarshal ValidateRule request)))
   \<and> (validationTriggeredCounter a = None
    \<longrightarrow> validatePrometheusRules fmtV Unmarshal ValidateRule a ar =
          (Inl NilPointerDereference, a))"
proof (intro conjI impI)
  assume "validationTriggeredCounter a = Some t \<and> validationErrorsCounter a = Some e
      \<and> Request ar = Some request"
  then show "fst (validatePrometheusRules fmtV Unmarshal ValidateRule a ar) =
          Inr (Some (spec_validate_response fmtV Unmarshal ValidateRule request))"
    by (simp add: validate_registered)
next
  assume "validationTriggeredCounter a = None"
  then show "validatePrometheusRules fmtV Unmarshal ValidateRule a ar =
          (Inl NilPointerDereference, a)"
    by (simp add: validatePrometheusRules_def Inc_def)
qed

theorem validate_needs_registered_counters_witness:
  "fst (validatePrometheusRules sample_fmtV sample_Unmarshal_rule sample_ValidateRule_bad
          sample_Admission (sample_review (Some sample_request))) =
     Inr (Some (toAdmissionResponseFailure ''Rules are not valid''
                  [''group g, rule 0: could not parse expression'', ''groupname g is repeated'']))
   \<and> validatePrometheusRules sample_fmtV sample_Unmarshal_rule sample_ValidateRule_bad
          New (sample_review (Some sample_request)) = (Inl NilPointerDereference, New)"
  using validate_needs_registered_counters [where a = sample_Admission and t = 0 and e = 0
      and ar = "sample_review (Some sample_request)" and request = sample_request
      and Unmarshal = sample_Unmarshal_rule and ValidateRule = sample_ValidateRule_bad
      and fmtV = sample_fmtV]
    validate_needs_registered_counters [where a = New
      and ar = "sample_review (Some sample_request)"
      and Unmarshal = sample_Unmarshal_rule and ValidateRule = sample_ValidateRule_bad
      and fmtV = sample_fmtV]
  by (simp add: sample_Admission_def RegisterMetrics_def New_def sample_review_def
      sample_request_def sample_Unmarshal_rule_def sample_ValidateRule_bad_def
      spec_validate_response_def)

text \<open>
  Claim C10. On a mismatch of the resource triple the mutating function leaves the
  webhook as it was, both counters included; the validating function, its counters
  registered, increments each of the two counters once and leaves the rest of the
  webhook as it was.
\<close>

theorem kind_mismatch_counters:
  assumes "Request ar = Some request"
    and "req_Resource request \<noteq> ruleResource"
    and "validationTriggeredCounter a = Some t"
    and "validationErrorsCounter a = Some e"
  shows "snd (mutatePrometheusRules fmtV UnmarshalM generatePatches a ar) = a
         \<and> snd (validatePrometheusRules fmtV UnmarshalV ValidateRule a ar) =
             a\<lparr>validationTriggeredCounter := Some (t + 1),
               validationErrorsCounter := Some (e + 1)\<rparr>
         \<and> Admission.more (snd (validatePrometheusRules fmtV UnmarshalV ValidateRule a ar)) =
             Admission.more a"
proof -
  have "snd (mutatePrometheusRules fmtV UnmarshalM generatePatches a ar) = a"
    using assms(1,2) by (simp add: mutatePrometheusRules_def)
  moreover have "snd (validatePrometheusRules fmtV UnmarshalV ValidateRule a ar) =
             a\<lparr>validationTriggeredCounter := Some (t + 1),
               validationErrorsCounter := Some (e + 1)\<rparr>"
    using assms(2)
    by (simp add: validate_registered [OF assms(3,4,1)] spec_validate_response_def
        toAdmissionResponseFailure_eq)
  ultimately show ?thesis by simp
qed

theorem kind_mismatch_counters_witness:
  "snd (mutatePrometheusRules sample_fmtV sample_Unmarshal_rules sample_generatePatches
          sample_Admission (sample_review (Some sample_foreign_request))) =
     \<lparr>validationErrorsCounter = Some 0, validationTriggeredCounter = Some 0\<rparr>
   \<and> snd (validatePrometheusRules sample_fmtV sample_Unmarshal_rule sample_ValidateRule_ok
          sample_Admission (sample_review (Some sample_foreign_request))) =
     \<lparr>validationErrorsCounter = Some 1, validationTriggeredCounter = Some 1\<rparr>"
  using kind_mismatch_counters [where a = sample_Admission and t = 0 and e = 0
      and ar = "sample_review (Some sample_foreign_request)"
      and request = sample_foreign_request and fmtV = sample_fmtV
      and UnmarshalM = sample_Unmarshal_rules and generatePatches = sample_generatePatches
      and UnmarshalV = sample_Unmarshal_rule and ValidateRule = sample_ValidateRule_ok]
  by (simp add: sample_Admission_def RegisterMetrics_def New_def sample_review_def
      sample_foreign_request_def ruleResource_def)

subsection \<open>The patch of the mutating admission function is a JSON array\<close>

lemma json_chars_plain: "list_all json_plain s \<Longrightarrow> json_chars s"
  by (induction s) (simp_all add: chars_Nil chars_Plain)

lemma json_string: "list_all json_plain s \<Longrightarrow> json_value (CHR 0x22 # s @ [CHR 0x22])"
  using value_String [OF json_chars_plain, of s] by simp

lemma json_member:
  assumes "list_all json_plain k" and "json_value v" and "json_ws w"
  shows "json_members ('' '' @ CHR 0x22 # k @ CHR 0x22 # '': '' @ v @ w)"
proof -
  have "json_ws '' ''" and "json_ws []"
    by (simp_all add: json_ws_def)
  then show ?thesis
    using members_One [of "'' ''" k "[]" "'' ''" v w] assms json_chars_plain [of k]
    by simp
qed

lemma json_member_more:
  assumes "list_all json_plain k" and "json_value v" and "json_members ms"
  shows "json_members ('' '' @ CHR 0x22 # k @ CHR 0x22 # '': '' @ v @ '','' @ ms)"
proof -
  have "json_ws '' ''" and "json_ws []"
    by (simp_all add: json_ws_def)
  then show ?thesis
    using members_More [of "'' ''" k "[]" "'' ''" v "[]" ms] assms json_chars_plain [of k]
    by simp
qed

lemma json_value_addAdditionalAnnotationPatch: "json_value addAdditionalAnnotationPatch"
proof -
  have v3: "json_value (CHR 0x22 # ''true'' @ [CHR 0x22])"
    by (rule json_string) (simp add: json_plain_def)
  have v2: "json_value
      (CHR 0x22 # ''/metadata/annotations/prometheus-operator-validated'' @ [CHR 0x22])"
    by (rule json_string) (simp add: json_plain_def)
  have v1: "json_value (CHR 0x22 # ''add'' @ [CHR 0x22])"
    by (rule json_string) (simp add: json_plain_def)
  have m3: "json_members
      ('' '' @ CHR 0x22 # ''value'' @ CHR 0x22 # '': '' @ (CHR 0x22 # ''true'' @ [CHR 0x22]) @ '' '')"
    by (rule json_member [OF _ v3]) (simp_all add: json_plain_def json_ws_def)
  have m2: "json_members
      ('' '' @ CHR 0x22 # ''path'' @ CHR 0x22 # '': ''
         @ (CHR 0x22 # ''/metadata/annotations/prometheus-operator-validated'' @ [CHR 0x22])
         @ '','' @ '' '' @ CHR 0x22 # ''value'' @ CHR 0x22 # '': ''
         @ (CHR 0x22 # ''true'' @ [CHR 0x22]) @ '' '')"
    by (rule json_member_more [OF _ v2 m3]) (simp add: json_plain_def)
  have m1: "json_members
      ('' '' @ CHR 0x22 # ''op'' @ CHR 0x22 # '': '' @ (CHR 0x22 # ''add'' @ [CHR 0x22])
         @ '','' @ '' '' @ CHR 0x22 # ''path'' @ CHR 0x22 # '': ''
         @ (CHR 0x22 # ''/metadata/annotations/prometheus-operator-validated'' @ [CHR 0x22])
         @ '','' @ '' '' @ CHR 0x22 # ''value'' @ CHR 0x22 # '': ''
         @ (CHR 0x22 # ''true'' @ [CHR 0x22]) @ '' '')"
    by (rule json_member_more [OF _ v1 m2]) (simp add: json_plain_def)
  show ?thesis
    using value_Object [OF m1] by (simp add: addAdditionalAnnotationPatch_def)
qed

lemma json_value_addFirstAnnotationPatch: "json_value addFirstAnnotationPatch"
proof -
  have v4: "json_value (CHR 0x22 # ''true'' @ [CHR 0x22])"
    by (rule json_string) (simp add: json_plain_def)
  have m4: "json_members
      ([] @ [CHR 0x22] @ ''prometheus-operator-validated'' @ [CHR 0x22] @ [] @ '':'' @ '' ''
         @ (CHR 0x22 # ''true'' @ [CHR 0x22]) @ [])"
    by (rule members_One [OF _ json_chars_plain _ _ v4])
       (simp_all add: json_plain_def json_ws_def)
  have v3: "json_value
      (''{'' @ ([] @ [CHR 0x22] @ ''prometheus-operator-validated'' @ [CHR 0x22] @ [] @ '':''
         @ '' '' @ (CHR 0x22 # ''true'' @ [CHR 0x22]) @ []) @ ''}'')"
    by (rule value_Object [OF m4])
  have v2: "json_value (CHR 0x22 # ''/metadata/annotations'' @ [CHR 0x22])"
    by (rule json_string) (simp add: json_plain_def)
  have v1: "json_value (CHR 0x22 # ''add'' @ [CHR 0x22])"
    by (rule json_string) (simp add: json_plain_def)
  have m3: "json_members
      ('' '' @ CHR 0x22 # ''value'' @ CHR 0x22 # '': ''
         @ (''{'' @ ([] @ [CHR 0x22] @ ''prometheus-operator-validated'' @ [CHR 0x22] @ []
              @ '':'' @ '' '' @ (CHR 0x22 # ''true'' @ [CHR 0x22]) @ []) @ ''}'') @ [])"
    by (rule json_member [OF _ v3]) (simp_all add: json_plain_def json_ws_def)
  note m2 = json_member_more [OF _ v2 m3, of "''path''"]
  have p2: "list_all json_plain ''path''" and p1: "list_all json_plain ''op''"
    by (simp_all add: json_plain_def)
  note m1 = json_member_more [OF p1 v1 m2 [OF p2]]
  show ?thesis
    using value_Object [OF m1] by (simp add: addFirstAnnotationPatch_def)
qed

lemma json_value_sample_patch: "json_value sample_patch"
proof -
  have ws: "json_ws []" and sp: "json_ws '' ''"
    by (simp_all add: json_ws_def)
  have v3: "json_value ([CHR 0x22] @ ''1'' @ [CHR 0x22])"
    by (rule value_String, rule json_chars_plain) (simp add: json_plain_def)
  have v2: "json_value
      ([CHR 0x22] @ ''/spec/groups/0/rules/0/labels/severity'' @ [CHR 0x22])"
    by (rule value_String, rule json_chars_plain) (simp add: json_plain_def)
  have v1: "json_value ([CHR 0x22] @ ''replace'' @ [CHR 0x22])"
    by (rule value_String, rule json_chars_plain) (simp add: json_plain_def)
  have k3: "json_chars ''value''" and k2: "json_chars ''path''" and k1: "json_chars ''op''"
    by (rule json_chars_plain, simp add: json_plain_def)+
  note m3 = members_One [OF ws k3 ws sp v3 ws]
  note m2 = members_More [OF ws k2 ws sp v2 ws m3]
  note m1 = members_More [OF ws k1 ws sp v1 ws m2]
  show ?thesis
    using value_Object [OF m1] by (simp add: sample_patch_def)
qed

lemma json_elements_Join:
  "vs \<noteq> [] \<Longrightarrow> list_all json_value vs \<Longrightarrow> json_elements vs (Join vs '','')"
proof (induction vs "'',''" rule: Join.induct)
  case 1
  then show ?case by simp
next
  case (2 x)
  have "json_ws []"
    by (simp add: json_ws_def)
  then have "json_elements [x] ([] @ x @ [])"
    using 2 by (intro elements_One) simp_all
  then show ?case by simp
next
  case (3 x y xs)
  have ws: "json_ws []"
    by (simp add: json_ws_def)
  have "json_elements (y # xs) (Join (y # xs) '','')"
    using 3 by simp
  then have "json_elements (x # y # xs) ([] @ x @ [] @ '','' @ Join (y # xs) '','')"
    using 3 ws by (intro elements_More) simp_all
  then show ?case by simp
qed

lemma json_array_of_Join:
  "vs \<noteq> [] \<Longrightarrow> list_all json_value vs \<Longrightarrow> json_array_of vs (''['' @ Join vs '','' @ '']'')"
  by (rule array_of_elements) (rule json_elements_Join)

lemma json_array_of_value: "json_array_of vs s \<Longrightarrow> json_value s"
proof (induction rule: json_array_of.induct)
  case (array_of_Nil w)
  then show ?case by (rule value_Array_empty)
next
  case (array_of_elements vs es)
  then show ?case by (rule value_Array)
qed

subsection \<open>A JSON value passes the scan\<close>

lemma scan_append:
  "scan st (a @ b) = (case scan st a of None \<Rightarrow> None | Some st' \<Rightarrow> scan st' b)"
  by (induction a arbitrary: st) (simp_all split: option.split)

lemma scan_outside_chars:
  "list_all (\<lambda>c. c \<in> set json_outside_chars) s \<Longrightarrow> scan Outside s = Some Outside"
proof (induction s)
  case Nil
  show ?case by simp
next
  case (Cons c s)
  then have "c \<in> set json_outside_chars" and "scan Outside s = Some Outside"
    by simp_all
  moreover from \<open>c \<in> set json_outside_chars\<close> have "c \<noteq> CHR 0x22"
    by (auto simp: json_outside_chars_def)
  ultimately show ?case by simp
qed

lemma list_all_outside:
  assumes "set cs \<subseteq> set json_outside_chars" and "list_all (\<lambda>c. c \<in> set cs) s"
  shows "scan Outside s = Some Outside"
proof (rule scan_outside_chars)
  have "c \<in> set json_outside_chars" if "c \<in> set cs" for c
    using that assms(1) by (rule subsetD [rotated])
  with assms(2) show "list_all (\<lambda>c. c \<in> set json_outside_chars) s"
    by (induction s) simp_all
qed

lemma scan_ws: "json_ws w \<Longrightarrow> scan Outside w = Some Outside"
proof -
  have sub: "set [CHR 0x20, CHR 0x09, CHR 0x0A, CHR 0x0D] \<subseteq> set json_outside_chars"
    by (simp add: json_outside_chars_def)
  assume "json_ws w"
  then have "list_all (\<lambda>c. c \<in> set [CHR 0x20, CHR 0x09, CHR 0x0A, CHR 0x0D]) w"
    by (simp only: json_ws_def)
  with sub show ?thesis
    by (rule list_all_outside)
qed

lemma scan_digits: "list_all is_digit d \<Longrightarrow> scan Outside d = Some Outside"
proof -
  have sub: "set ''0123456789'' \<subseteq> set json_outside_chars"
    by (simp add: json_outside_chars_def)
  have "is_digit = (\<lambda>c. c \<in> set ''0123456789'')"
    by (rule ext) (simp only: is_digit_def)
  moreover assume "list_all is_digit d"
  ultimately have "list_all (\<lambda>c. c \<in> set ''0123456789'') d"
    by (simp only:)
  with sub show ?thesis
    by (rule list_all_outside)
qed

lemma scan_chars: "json_chars s \<Longrightarrow> scan Inside s = Some Inside"
proof (induction rule: json_chars.induct)
  case chars_Nil
  show ?case by simp
next
  case (chars_Plain c s)
  then show ?case by (simp add: json_plain_def)
next
  case (chars_Escape e s)
  then show ?case by simp
next
  case (chars_Unicode h1 h2 h3 h4 s)
  have "CHR 0x22 \<notin> set ''0123456789abcdefABCDEF''"
    and "CHR 0x5C \<notin> set ''0123456789abcdefABCDEF''"
    by simp_all
  then have hex: "h \<noteq> CHR 0x22 \<and> h \<noteq> CHR 0x5C" if "is_hex h" for h
    using that unfolding is_hex_def by blast
  from chars_Unicode hex [of h1] hex [of h2] hex [of h3] hex [of h4]
  show ?case by simp
qed

lemma scan_sign: "sg \<in> set [[], ''+'', ''-''] \<Longrightarrow> scan Outside sg = Some Outside"
proof -
  have "scan Outside [] = Some Outside" and "scan Outside ''+'' = Some Outside"
    and "scan Outside ''-'' = Some Outside"
    by (simp_all add: json_outside_chars_def)
  moreover assume "sg \<in> set [[], ''+'', ''-'']"
  then have "sg = [] \<or> sg = ''+'' \<or> sg = ''-''"
    by (simp only: set_simps insert_iff empty_iff simp_thms)
  ultimately show ?thesis by blast
qed

lemma scan_int: "json_int i \<Longrightarrow> scan Outside i = Some Outside"
proof -
  have "scan Outside ''0'' = Some Outside"
    by (simp add: json_outside_chars_def)
  moreover assume "json_int i"
  then have "i = ''0'' \<or> list_all is_digit i"
    unfolding json_int_def digits_def by blast
  ultimately show ?thesis
    using scan_digits by blast
qed

lemma scan_frac: "json_frac f \<Longrightarrow> scan Outside f = Some Outside"
proof (induction rule: json_frac.induct)
  case frac_None
  show ?case by simp
next
  case (frac_Some d)
  have "scan Outside ''.'' = Some Outside"
    by (simp add: json_outside_chars_def)
  moreover have "scan Outside d = Some Outside"
    using frac_Some by (simp add: digits_def scan_digits)
  ultimately show ?case
    by (simp only: scan_append option.case)
qed

lemma scan_exp: "json_exp x \<Longrightarrow> scan Outside x = Some Outside"
proof (induction rule: json_exp.induct)
  case exp_None
  show ?case by simp
next
  case (exp_Some e sg d)
  have "scan Outside ''e'' = Some Outside" and "scan Outside ''E'' = Some Outside"
    by (simp_all add: json_outside_chars_def)
  moreover from exp_Some(1) have "e = ''e'' \<or> e = ''E''"
    by (simp only: set_simps insert_iff empty_iff simp_thms)
  ultimately have "scan Outside e = Some Outside"
    by blast
  moreover have "scan Outside sg = Some Outside"
    using exp_Some(2) by (rule scan_sign)
  moreover have "scan Outside d = Some Outside"
    using exp_Some(3) by (simp add: digits_def scan_digits)
  ultimately show ?case
    by (simp only: scan_append option.case)
qed

lemma scan_number: "json_number s \<Longrightarrow> scan Outside s = Some Outside"
proof (induction rule: json_number.induct)
  case (number sg i f e)
  from number(1) have "sg \<in> set [[], ''+'', ''-'']"
    by (simp only: set_simps insert_iff empty_iff simp_thms) blast
  then have "scan Outside sg = Some Outside"
    by (rule scan_sign)
  then show ?case
    using number(2-4) by (simp only: scan_append option.case scan_int scan_frac scan_exp)
qed

lemma scan_json:
  shows "json_value s \<Longrightarrow> scan Outside s = Some Outside"
    and "json_elements vs es \<Longrightarrow> scan Outside es = Some Outside"
    and "json_members ms \<Longrightarrow> scan Outside ms = Some Outside"
proof (induction rule: json_value_json_elements_json_members.inducts)
  case (value_String s)
  then show ?case by (simp add: scan_append scan_chars)
next
  case (value_Number s)
  then show ?case by (rule scan_number)
next
  case value_True
  show ?case by (simp add: json_outside_chars_def)
next
  case value_False
  show ?case by (simp add: json_outside_chars_def)
next
  case value_Null
  show ?case by (simp add: json_outside_chars_def)
next
  case (value_Object_empty w)
  then show ?case by (simp add: scan_append scan_ws json_outside_chars_def)
next
  case (value_Object ms)
  then show ?case by (simp add: scan_append json_outside_chars_def)
next
  case (value_Array_empty w)
  then show ?case by (simp add: scan_append scan_ws json_outside_chars_def)
next
  case (value_Array vs es)
  then show ?case by (simp add: scan_append json_outside_chars_def)
next
  case (elements_One w1 v w2)
  then show ?case by (simp add: scan_append scan_ws)
next
  case (elements_More w1 v w2 vs es)
  then show ?case by (simp add: scan_append scan_ws json_outside_chars_def)
next
  case (members_One w1 k w2 w3 v w4)
  then show ?case by (simp add: scan_append scan_ws scan_chars json_outside_chars_def)
next
  case (members_More w1 k w2 w3 v w4 ms)
  then show ?case by (simp add: scan_append scan_ws scan_chars json_outside_chars_def)
qed

lemma scan_unescaped_payload:
  "scan Outside (''['' @ sample_unescaped_patch @ '','' @ addFirstAnnotationPatch @ '']'') = None"
  by (simp add: sample_unescaped_patch_def addFirstAnnotationPatch_def json_outside_chars_def)

subsection \<open>The sample collaborators on the sample objects\<close>

lemma sample_Unmarshal_rules_object:
  "sample_Unmarshal_rules sample_object = Inr \<lparr>Annotations = [], Spec_Raw = sample_spec\<rparr>"
  by (simp add: sample_Unmarshal_rules_def sample_object_def)

lemma sample_Unmarshal_rules_annotated_object:
  "sample_Unmarshal_rules sample_annotated_object =
     Inr \<lparr>Annotations = [(''team'', ''sre'')], Spec_Raw = sample_spec\<rparr>"
  by (simp add: sample_Unmarshal_rules_def sample_object_def sample_annotated_object_def)

lemma sample_Unmarshal_rules_unescaped_object:
  "sample_Unmarshal_rules sample_unescaped_object =
     Inr \<lparr>Annotations = [], Spec_Raw = sample_unescaped_spec\<rparr>"
  by (simp add: sample_Unmarshal_rules_def sample_object_def sample_annotated_object_def
      sample_unescaped_object_def sample_spec_def sample_unescaped_spec_def)

lemma sample_generatePatches_spec: "sample_generatePatches sample_spec = Inr [sample_patch]"
  by (simp add: sample_generatePatches_def sample_spec_def)

lemma sample_generatePatches_unescaped_spec:
  "sample_generatePatches sample_unescaped_spec = Inr [sample_unescaped_patch]"
  by (simp add: sample_generatePatches_def sample_spec_def sample_unescaped_spec_def)

subsection \<open>The patch the mutating admission function returns\<close>

text \<open>
  Claim C3, as the code has it. The patch is the text of the fragments joined by commas
  between brackets, whatever the fragments are. On a rule whose label has as value an
  array holding the string \<^verbatim>\<open>x"y\<close>, with a patch generator that succeeds with the
  fragment \<^verbatim>\<open>{"op": "replace","path": "...","value": "[x"y]"}\<close>, the mutating function
  returns \<open>Allowed = True\<close> and a patch that is not a JSON value.
\<close>

theorem mutate_patch_not_json_counterexample:
  "mutatePrometheusRules sample_fmtV sample_Unmarshal_rules sample_generatePatches
     sample_Admission (sample_review (Some (sample_mutate_request sample_unescaped_object))) =
     (Inr (Some \<lparr>resp_UID = [], Allowed = True, Result = None,
             Patch = Some (''['' @ sample_unescaped_patch @ '','' @ addFirstAnnotationPatch
                           @ '']''),
             PatchType = Some ''JSONPatch''\<rparr>), sample_Admission)
   \<and> \<not> json_value (''['' @ sample_unescaped_patch @ '','' @ addFirstAnnotationPatch @ '']'')"
proof
  show "mutatePrometheusRules sample_fmtV sample_Unmarshal_rules sample_generatePatches
     sample_Admission (sample_review (Some (sample_mutate_request sample_unescaped_object))) =
     (Inr (Some \<lparr>resp_UID = [], Allowed = True, Result = None,
             Patch = Some (''['' @ sample_unescaped_patch @ '','' @ addFirstAnnotationPatch
                           @ '']''),
             PatchType = Some ''JSONPatch''\<rparr>), sample_Admission)"
    by (simp add: mutatePrometheusRules_def sample_review_def sample_mutate_request_def
        sample_Unmarshal_rules_unescaped_object sample_generatePatches_unescaped_spec
        zeroAdmissionResponse_def PatchTypeJSONPatch_def)
next
  show "\<not> json_value (''['' @ sample_unescaped_patch @ '','' @ addFirstAnnotationPatch @ '']'')"
  proof
    assume "json_value (''['' @ sample_unescaped_patch @ '','' @ addFirstAnnotationPatch @ '']'')"
    then have "scan Outside (''['' @ sample_unescaped_patch @ '','' @ addFirstAnnotationPatch
                 @ '']'') = Some Outside"
      by (rule scan_json(1))
    then show False
      by (simp only: scan_unescaped_payload option.distinct)
  qed
qed

text \<open>
  Claim C3, amended. On a mutate request for the expected resource whose object
  unmarshals and whose patch generation succeeds, the response has \<open>Allowed = True\<close>,
  the patch type \<open>JSONPatch\<close> and, as patch, an opening bracket, the fragments of the
  patch generator followed by exactly one more operation, the last, all joined by
  commas, and a closing bracket. The operation is \<open>addFirstAnnotationPatch\<close> (path
  \<open>/metadata/annotations\<close>, value the map with \<open>prometheus-operator-validated\<close> set to
  \<open>true\<close>) when the object has no annotation, and \<open>addAdditionalAnnotationPatch\<close> (path
  \<open>/metadata/annotations/prometheus-operator-validated\<close>) when it has some. When every
  fragment of the patch generator is a JSON value, the patch is a JSON array whose
  elements are these texts in this order.
\<close>

theorem mutate_patch_json_array:
  assumes "Request ar = Some request"
    and "req_Resource request = ruleResource"
    and "Unmarshal (Object_Raw request) = Inr rule"
    and "generatePatches (Spec_Raw rule) = Inr patches"
  shows "(let annotation = (if Annotations rule = [] then addFirstAnnotationPatch
                            else addAdditionalAnnotationPatch);
              payload = ''['' @ Join (patches @ [annotation]) '','' @ '']''
          in mutatePrometheusRules fmtV Unmarshal generatePatches a ar =
               (Inr (Some \<lparr>resp_UID = [], Allowed = True, Result = None,
                       Patch = Some payload, PatchType = Some ''JSONPatch''\<rparr>), a)
             \<and> (list_all json_value patches
                  \<longrightarrow> json_array_of (patches @ [annotation]) payload \<and> json_value payload))"
proof -
  define annotation where
    "annotation = (if Annotations rule = [] then addFirstAnnotationPatch
                   else addAdditionalAnnotationPatch)"
  define payload where "payload = ''['' @ Join (patches @ [annotation]) '','' @ '']''"
  have run: "mutatePrometheusRules fmtV Unmarshal generatePatches a ar =
               (Inr (Some \<lparr>resp_UID = [], Allowed = True, Result = None,
                       Patch = Some payload, PatchType = Some ''JSONPatch''\<rparr>), a)"
    using assms
    by (simp add: mutatePrometheusRules_def zeroAdmissionResponse_def PatchTypeJSONPatch_def
        payload_def annotation_def)
  have wf: "json_array_of (patches @ [annotation]) payload \<and> json_value payload"
    if fragments: "list_all json_value patches"
  proof -
    have "json_value annotation"
      by (simp add: annotation_def json_value_addFirstAnnotationPatch
          json_value_addAdditionalAnnotationPatch)
    then have "list_all json_value (patches @ [annotation])"
      using fragments by simp
    then have array: "json_array_of (patches @ [annotation]) payload"
      unfolding payload_def by (intro json_array_of_Join) simp_all
    then have "json_value payload"
      by (rule json_array_of_value)
    with array show ?thesis ..
  qed
  from run wf show ?thesis
    by (simp add: Let_def annotation_def payload_def)
qed

theorem mutate_patch_json_array_witness:
  "mutatePrometheusRules sample_fmtV sample_Unmarshal_rules sample_generatePatches
     sample_Admission (sample_review (Some (sample_mutate_request sample_object))) =
     (Inr (Some \<lparr>resp_UID = [], Allowed = True, Result = None,
             Patch = Some (''['' @ sample_patch @ '','' @ addFirstAnnotationPatch @ '']''),
             PatchType = Some ''JSONPatch''\<rparr>), sample_Admission)
   \<and> json_array_of [sample_patch, addFirstAnnotationPatch]
       (''['' @ sample_patch @ '','' @ addFirstAnnotationPatch @ '']'')
   \<and> mutatePrometheusRules sample_fmtV sample_Unmarshal_rules sample_generatePatches
     sample_Admission (sample_review (Some (sample_mutate_request sample_annotated_object))) =
     (Inr (Some \<lparr>resp_UID = [], Allowed = True, Result = None,
             Patch = Some (''['' @ sample_patch @ '','' @ addAdditionalAnnotationPatch @ '']''),
             PatchType = Some ''JSONPatch''\<rparr>), sample_Admission)
   \<and> json_array_of [sample_patch, addAdditionalAnnotationPatch]
       (''['' @ sample_patch @ '','' @ addAdditionalAnnotationPatch @ '']'')"
  using mutate_patch_json_array [where a = sample_Admission
      and ar = "sample_review (Some (sample_mutate_request sample_object))"
      and request = "sample_mutate_request sample_object"
      and Unmarshal = sample_Unmarshal_rules
      and rule = "\<lparr>Annotations = [], Spec_Raw = sample_spec\<rparr>"
      and generatePatches = sample_generatePatches and patches = "[sample_patch]"
      and fmtV = sample_fmtV]
    mutate_patch_json_array [where a = sample_Admission
      and ar = "sample_review (Some (sample_mutate_request sample_annotated_object))"
      and request = "sample_mutate_request sample_annotated_object"
      and Unmarshal = sample_Unmarshal_rules
      and rule = "\<lparr>Annotations = [(''team'', ''sre'')], Spec_Raw = sample_spec\<rparr>"
      and generatePatches = sample_generatePatches and patches = "[sample_patch]"
      and fmtV = sample_fmtV]
    json_value_sample_patch
  by (simp add: sample_review_def sample_mutate_request_def sample_Unmarshal_rules_object
      sample_Unmarshal_rules_annotated_object sample_generatePatches_spec Let_def)

subsection \<open>The HTTP handler\<close>

text \<open>
  What the handler does on a request with a body and the JSON content type, when the
  envelope left by the deserializer has a request and the response pointer is not nil:
  it hands to \<open>writeResponse\<close> an envelope with the kind and API version of the request
  envelope and the response with the UID of the request.
\<close>

lemma serveAdmission_responds:
  assumes "body \<noteq> []"
    and "Decode body zeroAdmissionReview = (requested, err)"
    and "Request requested = Some request"
    and "(case err of
            Some e \<Rightarrow> (Inr (Some (toAdmissionResponseFailure
                                     ''Unable to deserialize request'' [e])), a)
          | None \<Rightarrow> admit a requested) = (Inr (Some resp), a')"
  shows "serveAdmission Decode Marshal wWrite admit a
           \<lparr>Body = Some (Inr body), ContentType = ''application/json''\<rparr> =
         (Inr (writeResponse Marshal wWrite
                 \<lparr>Kind = Kind requested, APIVersion = APIVersion requested, Request = None,
                  Response = Some (resp\<lparr>resp_UID := req_UID request\<rparr>)\<rparr>), a')"
  using assms
  by (simp add: serveAdmission_def zeroAdmissionReview_def)

lemma writeResponse_200:
  "Marshal review = Inr bs \<Longrightarrow> http_status (writeResponse Marshal wWrite review) = 200"
  by (simp add: writeResponse_def)

text \<open>
  Claim C1, the code at the failing input. A body that is not an admission review
  (here the one byte \<open>x\<close>, or any other non-empty body) with the JSON content type, and
  a deserializer that returns its error with the envelope left at its zero value: the
  handler builds the failure response and then reads the UID through the nil
  \<open>Request\<close> pointer of the request envelope. It panics, whatever the admission
  function, and no response envelope is written.
\<close>

theorem serveAdmission_decode_error_panics:
  "serveAdmission sample_Decode_error Marshal wWrite admit a
     \<lparr>Body = Some (Inr (b # bs)), ContentType = ''application/json''\<rparr> =
   (Inl NilPointerDereference, a)"
  by (simp add: serveAdmission_def sample_Decode_error_def zeroAdmissionReview_def)

text \<open>
  Claim C2, the code at the failing input. On both routes the request with body \<open>x\<close>,
  which fails to decode, gets no admission review and no status 200: the handler
  panics before it writes anything.
\<close>

theorem decode_error_routes_panic:
  "fst (servePrometheusRulesValidate sample_Decode_error sample_Marshal sample_Write
          sample_fmtV sample_Unmarshal_rule sample_ValidateRule_ok sample_Admission
          sample_http_Request) = Inl NilPointerDereference
   \<and> fst (servePrometheusRulesMutate sample_Decode_error sample_Marshal sample_Write
          sample_fmtV sample_Unmarshal_rules sample_generatePatches sample_Admission
          sample_http_Request) = Inl NilPointerDereference"
  by (simp add: servePrometheusRulesValidate_def servePrometheusRulesMutate_def
      serveAdmission_def sample_Decode_error_def sample_http_Request_def
      zeroAdmissionReview_def)

text \<open>
  Claim C7, the code at the failing input. A body that decodes without error into an
  envelope with no request (an admission review with its kind and API version and
  nothing else): the handler calls the admission function on that envelope, whose
  \<open>Request\<close> is nil. The webhook the handler leaves is the one that call returns,
  whatever the admission function is, and the handler panics. With the validating
  function the triggered counter has been incremented by the call; both admission
  functions of the package panic on reading the resource through the nil pointer.
\<close>

theorem admit_called_without_request:
  "sample_Decode_no_request (b # bs) zeroAdmissionReview = (sample_review None, None)
   \<and> Request (sample_review None) = None
   \<and> serveAdmission sample_Decode_no_request Marshal wWrite admit a
        \<lparr>Body = Some (Inr (b # bs)), ContentType = ''application/json''\<rparr> =
       (Inl NilPointerDereference, snd (admit a (sample_review None)))
   \<and> serveAdmission sample_Decode_no_request Marshal wWrite
        (validatePrometheusRules fmtV UnmarshalV ValidateRule) sample_Admission
        \<lparr>Body = Some (Inr (b # bs)), ContentType = ''application/json''\<rparr> =
       (Inl NilPointerDereference,
        \<lparr>validationErrorsCounter = Some 0, validationTriggeredCounter = Some 1\<rparr>)
   \<and> fst (mutatePrometheusRules fmtV UnmarshalM generatePatches a (sample_review None)) =
       Inl NilPointerDereference
   \<and> fst (validatePrometheusRules fmtV UnmarshalV ValidateRule a (sample_review None)) =
       Inl NilPointerDereference"
proof -
  have decode: "sample_Decode_no_request (b # bs) zeroAdmissionReview = (sample_review None, None)"
    by (simp add: sample_Decode_no_request_def zeroAdmissionReview_def sample_review_def)
  have call: "serveAdmission sample_Decode_no_request Marshal wWrite admit a
        \<lparr>Body = Some (Inr (b # bs)), ContentType = ''application/json''\<rparr> =
       (Inl NilPointerDereference, snd (admit a (sample_review None)))"
    for admit :: "'z Admission_scheme \<Rightarrow> AdmissionReview \<Rightarrow>
      (go_panic + AdmissionResponse option) \<times> 'z Admission_scheme"
      and a :: "'z Admission_scheme"
  proof (cases "admit a (sample_review None)")
    case (Pair response a')
    have "p = NilPointerDereference" for p :: go_panic
      by (cases p) simp
    with Pair show ?thesis
      by (simp add: serveAdmission_def decode sample_review_def split: sum.split option.split)
  qed
  have validate: "validatePrometheusRules fmtV UnmarshalV ValidateRule sample_Admission
          (sample_review None) =
        (Inl NilPointerDereference,
         \<lparr>validationErrorsCounter = Some 0, validationTriggeredCounter = Some 1\<rparr>)"
    by (simp add: validatePrometheusRules_def sample_review_def Inc_def sample_Admission_def
        RegisterMetrics_def New_def)
  have "fst (mutatePrometheusRules fmtV UnmarshalM generatePatches a (sample_review None)) =
          Inl NilPointerDereference"
    by (simp add: mutatePrometheusRules_def sample_review_def)
  moreover have "fst (validatePrometheusRules fmtV UnmarshalV ValidateRule a
                        (sample_review None)) = Inl NilPointerDereference"
    by (simp add: validatePrometheusRules_def sample_review_def Inc_def split: option.split)
  moreover have "Request (sample_review None) = None"
    by (simp add: sample_review_def)
  ultimately show ?thesis
    using decode call [of admit a]
      call [of "validatePrometheusRules fmtV UnmarshalV ValidateRule" sample_Admission]
    by (simp add: validate)
qed

end
